theory Spec2Isabelle
  imports Complex_Main
begin

section \<open>JSON values\<close>

text \<open>
  The server of \<^verbatim>\<open>src/index.ts\<close> moves JSON values around: the arguments of a tool call, the
  body it posts to the exchange, and the body the exchange answers with. A JSON object is
  the list of its own properties in enumeration order (keys distinct); a number is the
  finite value it denotes; a string is a list of characters.
\<close>

datatype json =
    JNull
  | JBool bool
  | JNumber rat
  | JString string
  | JArray "json list"
  | JObject "(string \<times> json) list"

text \<open>
  The decimal numeral of a natural number, as a template literal prints an integer such
  as an HTTP status.
\<close>

definition digit_char :: "nat \<Rightarrow> char" where
  "digit_char d = ''0123456789abcdef'' ! d"

fun show_nat :: "nat \<Rightarrow> string" where
  "show_nat n = (if n < 10 then [digit_char n] else show_nat (n div 10) @ [digit_char (n mod 10)])"

declare show_nat.simps [simp del]

text \<open>
  \<^verbatim>\<open>Number::toString\<close> prints a double by its shortest round-trip decimal, which is
  floating-point work outside this development: the functions that print a number take
  the printer as their first argument.  On an integer below \<open>10^21\<close> in magnitude the
  printer is the plain decimal numeral, which is what \<open>integral_to_string\<close> computes; it
  stands for the printer in the examples, whose numbers are all of that kind.
\<close>

definition integral_to_string :: "rat \<Rightarrow> string" where
  "integral_to_string x = (if x < 0 then ''-'' else '''') @ show_nat (nat \<bar>\<lfloor>x\<rfloor>\<bar>)"

subsection \<open>ToBoolean and ToString\<close>

text \<open>
  A JavaScript value is a JSON value or \<^verbatim>\<open>undefined\<close> (\<open>None\<close>).  \<open>truthy\<close> is ToBoolean:
  \<^verbatim>\<open>undefined\<close>, \<^verbatim>\<open>null\<close>, \<^verbatim>\<open>false\<close>, zero and the empty string are falsy.
\<close>

fun truthy :: "json option \<Rightarrow> bool" where
  "truthy None = False"
| "truthy (Some JNull) = False"
| "truthy (Some (JBool b)) = b"
| "truthy (Some (JNumber x)) = (x \<noteq> 0)"
| "truthy (Some (JString s)) = (s \<noteq> [])"
| "truthy (Some (JArray xs)) = True"
| "truthy (Some (JObject kvs)) = True"

fun join :: "string \<Rightarrow> string list \<Rightarrow> string" where
  "join sep [] = []"
| "join sep [s] = s"
| "join sep (s # t # ts) = s @ sep @ join sep (t # ts)"

text \<open>
  \<open>to_string\<close> is ToString, the conversion a template literal applies: an array prints its
  elements joined by commas, with \<^verbatim>\<open>null\<close> elements empty, and an object prints as
  \<^verbatim>\<open>[object Object]\<close>.
\<close>

fun to_string :: "(rat \<Rightarrow> string) \<Rightarrow> json \<Rightarrow> string"
  and to_string_elems :: "(rat \<Rightarrow> string) \<Rightarrow> json list \<Rightarrow> string list" where
  "to_string nts JNull = ''null''"
| "to_string nts (JBool b) = (if b then ''true'' else ''false'')"
| "to_string nts (JNumber x) = nts x"
| "to_string nts (JString s) = s"
| "to_string nts (JArray xs) = join '','' (to_string_elems nts xs)"
| "to_string nts (JObject kvs) = ''[object Object]''"
| "to_string_elems nts [] = []"
| "to_string_elems nts (x # xs) =
     (if x = JNull then [] else to_string nts x) # to_string_elems nts xs"

subsection \<open>JSON.stringify with an indentation of two spaces\<close>

definition hex2 :: "nat \<Rightarrow> string" where
  "hex2 n = [digit_char (n div 16), digit_char (n mod 16)]"

text \<open>QuoteJSONString: the escapes of one character, and the quoted string.\<close>

definition escape_char :: "char \<Rightarrow> string" where
  "escape_char c =
     (if c = CHR 0x08 then [CHR 0x5C, CHR ''b'']
      else if c = CHR 0x09 then [CHR 0x5C, CHR ''t'']
      else if c = CHR 0x0A then [CHR 0x5C, CHR ''n'']
      else if c = CHR 0x0C then [CHR 0x5C, CHR ''f'']
      else if c = CHR 0x0D then [CHR 0x5C, CHR ''r'']
      else if c = CHR 0x22 then [CHR 0x5C, CHR 0x22]
      else if c = CHR 0x5C then [CHR 0x5C, CHR 0x5C]
      else if (of_char c :: nat) < 32 then [CHR 0x5C, CHR ''u'', CHR ''0'', CHR ''0''] @ hex2 (of_char c)
      else [c])"

definition quote :: "string \<Rightarrow> string" where
  "quote s = [CHR 0x22] @ concat (map escape_char s) @ [CHR 0x22]"

text \<open>
  SerializeJSONProperty with the gap \<^verbatim>\<open>"  "\<close>; \<open>ind\<close> is the current indentation.  An empty
  array or object prints without a line break.
\<close>

fun stringify :: "(rat \<Rightarrow> string) \<Rightarrow> string \<Rightarrow> json \<Rightarrow> string"
  and stringify_elems :: "(rat \<Rightarrow> string) \<Rightarrow> string \<Rightarrow> json list \<Rightarrow> string list"
  and stringify_members :: "(rat \<Rightarrow> string) \<Rightarrow> string \<Rightarrow> (string \<times> json) list \<Rightarrow> string list" where
  "stringify nts ind JNull = ''null''"
| "stringify nts ind (JBool b) = (if b then ''true'' else ''false'')"
| "stringify nts ind (JNumber x) = nts x"
| "stringify nts ind (JString s) = quote s"
| "stringify nts ind (JArray xs) =
     (if xs = [] then ''[]''
      else ''['' @ [CHR 0x0A] @ ind @ ''  ''
           @ join ('','' @ [CHR 0x0A] @ ind @ ''  '') (stringify_elems nts (ind @ ''  '') xs)
           @ [CHR 0x0A] @ ind @ '']'')"
| "stringify nts ind (JObject kvs) =
     (if kvs = [] then ''{}''
      else ''{'' @ [CHR 0x0A] @ ind @ ''  ''
           @ join ('','' @ [CHR 0x0A] @ ind @ ''  '') (stringify_members nts (ind @ ''  '') kvs)
           @ [CHR 0x0A] @ ind @ ''}'')"
| "stringify_elems nts ind [] = []"
| "stringify_elems nts ind (x # xs) = stringify nts ind x # stringify_elems nts ind xs"
| "stringify_members nts ind [] = []"
| "stringify_members nts ind ((k, v) # kvs) =
     (quote k @ '': '' @ stringify nts ind v) # stringify_members nts ind kvs"

definition JSON_stringify :: "(rat \<Rightarrow> string) \<Rightarrow> json \<Rightarrow> string" where
  "JSON_stringify nts v = stringify nts [] v"

section \<open>The upstream gateway\<close>

text \<open>
  \<^verbatim>\<open>hyperliquidApi\<close> is an axios instance with a base URL and a timeout of 30 seconds.  What the
  exchange does with one POST is the environment's: it answers with a status and a body
  (\<open>Reply\<close>), or no answer arrives and the client gives up with a message (\<open>NoReply\<close>: a
  network failure, the timeout), or the client fails with an exception of some other
  kind (\<open>Throws\<close>).
\<close>

record http_response =
  status :: nat
  data :: json

datatype js_error =
    AxiosError string "http_response option"
  | Error string
  | NonError

datatype wire =
    Reply nat json
  | NoReply string
  | Throws js_error

record env =
  upstream :: "string \<Rightarrow> json \<Rightarrow> wire"
  number_to_string :: "rat \<Rightarrow> string"

type_synonym request = "string \<times> json"

text \<open>
  axios resolves a request whose status is in the 2xx range and rejects every other one
  with an \<^verbatim>\<open>AxiosError\<close> that carries the response.
\<close>

definition hyperliquidApi_post :: "env \<Rightarrow> string \<Rightarrow> json \<Rightarrow> js_error + http_response" where
  "hyperliquidApi_post e endpoint d =
     (case upstream e endpoint d of
        Reply st body \<Rightarrow>
          if 200 \<le> st \<and> st < 300 then Inr \<lparr>status = st, data = body\<rparr>
          else Inl (AxiosError (''Request failed with status code '' @ show_nat st)
                     (Some \<lparr>status = st, data = body\<rparr>))
      | NoReply msg \<Rightarrow> Inl (AxiosError msg None)
      | Throws err \<Rightarrow> Inl err)"

text \<open>\<^verbatim>\<open>data?.error\<close>: only an object has the property.\<close>

fun error_property :: "json \<Rightarrow> json option" where
  "error_property (JObject kvs) = map_of kvs ''error''"
| "error_property _ = None"

text \<open>\<^verbatim>\<open>error.response?.data?.error\<close>\<close>

definition response_data_error :: "http_response option \<Rightarrow> json option" where
  "response_data_error resp = (case resp of None \<Rightarrow> None | Some r \<Rightarrow> error_property (data r))"

text \<open>\<^verbatim>\<open>x || y\<close>\<close>

definition js_or :: "json option \<Rightarrow> json \<Rightarrow> json" where
  "js_or x y = (case x of None \<Rightarrow> y | Some v \<Rightarrow> if truthy (Some v) then v else y)"

text \<open>
  The \<^verbatim>\<open>catch\<close> block of \<open>makeHyperliquidRequest\<close>: an axios failure is thrown again as a
  plain \<^verbatim>\<open>Error\<close> whose message prefers the \<^verbatim>\<open>error\<close> property of the response body to the
  message of axios; any other exception is thrown again as it is.
\<close>

fun rethrow :: "(rat \<Rightarrow> string) \<Rightarrow> js_error \<Rightarrow> js_error" where
  "rethrow nts (AxiosError msg resp) =
     Error (''Hyperliquid API error: ''
              @ to_string nts (js_or (response_data_error resp) (JString msg)))"
| "rethrow nts err = err"

text \<open>
  \<open>makeHyperliquidRequest\<close> posts once, which the list of sent requests records, and
  returns the response body or throws.
\<close>

definition makeHyperliquidRequest ::
    "env \<Rightarrow> string \<Rightarrow> json \<Rightarrow> request list \<Rightarrow> (js_error + json) \<times> request list" where
  "makeHyperliquidRequest e endpoint d sent =
     (case hyperliquidApi_post e endpoint d of
        Inr response \<Rightarrow> Inr (data response)
      | Inl err \<Rightarrow> Inl (rethrow (number_to_string e) err),
      sent @ [(endpoint, d)])"

section \<open>Tool results and handlers\<close>

record text_content =
  content_type :: string
  content_text :: string

record tool_result =
  content :: "text_content list"
  isError :: "bool option"

text \<open>\<^verbatim>\<open>error instanceof Error ? error.message : 'Unknown error'\<close>\<close>

fun error_message :: "js_error \<Rightarrow> string" where
  "error_message (AxiosError msg resp) = msg"
| "error_message (Error msg) = msg"
| "error_message NonError = ''Unknown error''"

text \<open>
  The two results a handler returns: the response body serialized, with no \<open>isError\<close>
  property, and the message of what was caught, flagged.
\<close>

definition success_result :: "(rat \<Rightarrow> string) \<Rightarrow> json \<Rightarrow> tool_result" where
  "success_result nts d =
     \<lparr>content = [\<lparr>content_type = ''text'', content_text = JSON_stringify nts d\<rparr>],
      isError = None\<rparr>"

definition error_result :: "js_error \<Rightarrow> tool_result" where
  "error_result err =
     \<lparr>content = [\<lparr>content_type = ''text'', content_text = ''Error: '' @ error_message err\<rparr>],
      isError = Some True\<rparr>"

text \<open>
  Every handler is one \<^verbatim>\<open>try\<close>/\<^verbatim>\<open>catch\<close> around one request to \<^verbatim>\<open>/info\<close>: the body comes back
  serialized, and whatever the request throws comes back as a flagged result.
  \<open>handler_body\<close> is that block, given the request data the handler has built.
\<close>

definition handler_body ::
    "env \<Rightarrow> json \<Rightarrow> request list \<Rightarrow> (js_error + tool_result) \<times> request list" where
  "handler_body e requestData sent =
     (case makeHyperliquidRequest e ''/info'' requestData sent of
        (Inr d, sent') \<Rightarrow> (Inr (success_result (number_to_string e) d), sent')
      | (Inl err, sent') \<Rightarrow> (Inr (error_result err), sent'))"

definition get_all_mids ::
    "env \<Rightarrow> unit \<Rightarrow> request list \<Rightarrow> (js_error + tool_result) \<times> request list" where
  "get_all_mids e u = handler_body e (JObject [(''type'', JString ''allMids'')])"

definition get_user_state ::
    "env \<Rightarrow> string \<Rightarrow> request list \<Rightarrow> (js_error + tool_result) \<times> request list" where
  "get_user_state e user_address =
     handler_body e (JObject [(''type'', JString ''userState''), (''user'', JString user_address)])"

text \<open>The parameter \<^verbatim>\<open>n = 100\<close> takes its default when the argument is \<^verbatim>\<open>undefined\<close>.\<close>

definition get_recent_trades ::
    "env \<Rightarrow> string \<times> rat option \<Rightarrow> request list \<Rightarrow> (js_error + tool_result) \<times> request list" where
  "get_recent_trades e = (\<lambda>(coin, n_arg).
     let n = (case n_arg of None \<Rightarrow> 100 | Some v \<Rightarrow> v) in
     handler_body e (JObject [(''type'', JString ''trades''), (''coin'', JString coin),
                              (''n'', JNumber (min n 1000))]))"

definition get_l2_snapshot ::
    "env \<Rightarrow> string \<Rightarrow> request list \<Rightarrow> (js_error + tool_result) \<times> request list" where
  "get_l2_snapshot e coin =
     handler_body e (JObject [(''type'', JString ''l2Book''), (''coin'', JString coin)])"

text \<open>
  \<^verbatim>\<open>if (start_time) requestData.startTime = start_time\<close> adds the property, last in the
  object, when the argument is truthy.
\<close>

definition set_if_truthy :: "string \<Rightarrow> rat option \<Rightarrow> (string \<times> json) list \<Rightarrow> (string \<times> json) list" where
  "set_if_truthy k v kvs =
     (case v of None \<Rightarrow> kvs
      | Some x \<Rightarrow> if truthy (Some (JNumber x)) then kvs @ [(k, JNumber x)] else kvs)"

definition get_candles ::
    "env \<Rightarrow> string \<times> string \<times> rat option \<times> rat option \<times> rat option
       \<Rightarrow> request list \<Rightarrow> (js_error + tool_result) \<times> request list" where
  "get_candles e = (\<lambda>(coin, interval, start_time, end_time, limit_arg).
     let limit = (case limit_arg of None \<Rightarrow> 500 | Some v \<Rightarrow> v);
         requestData = [(''type'', JString ''candles''), (''coin'', JString coin),
                        (''interval'', JString interval), (''limit'', JNumber (min limit 5000))];
         requestData = set_if_truthy ''startTime'' start_time requestData;
         requestData = set_if_truthy ''endTime'' end_time requestData
     in handler_body e (JObject requestData))"

definition get_meta ::
    "env \<Rightarrow> unit \<Rightarrow> request list \<Rightarrow> (js_error + tool_result) \<times> request list" where
  "get_meta e u = handler_body e (JObject [(''type'', JString ''meta'')])"

text \<open>
  \<^verbatim>\<open>...(coin && { coin })\<close>: a truthy \<open>coin\<close> spreads the one property; \<^verbatim>\<open>undefined\<close> and the
  empty string spread nothing.
\<close>

definition spread_coin :: "string option \<Rightarrow> (string \<times> json) list" where
  "spread_coin coin =
     (case coin of None \<Rightarrow> []
      | Some c \<Rightarrow> if truthy (Some (JString c)) then [(''coin'', JString c)] else [])"

definition get_funding_rates ::
    "env \<Rightarrow> string option \<Rightarrow> request list \<Rightarrow> (js_error + tool_result) \<times> request list" where
  "get_funding_rates e coin =
     handler_body e (JObject ([(''type'', JString ''fundingRate'')] @ spread_coin coin))"

definition get_open_interest ::
    "env \<Rightarrow> string option \<Rightarrow> request list \<Rightarrow> (js_error + tool_result) \<times> request list" where
  "get_open_interest e coin =
     handler_body e (JObject ([(''type'', JString ''openInterest'')] @ spread_coin coin))"

section \<open>The tool registry\<close>

subsection \<open>The parameter schemas\<close>

text \<open>
  Each tool is registered with a zod shape.  A schema reads the value found under its key
  (\<open>None\<close> when the key is absent) and gives the parsed value or the codes of its issues.
\<close>

datatype issue_code = invalid_type | invalid_enum_value | too_small | too_big

type_synonym issue = "string \<times> issue_code"

type_synonym args = "string \<Rightarrow> json option"

text \<open>\<^verbatim>\<open>z.string()\<close>\<close>

fun z_string :: "json option \<Rightarrow> issue_code list + string" where
  "z_string (Some (JString s)) = Inr s"
| "z_string _ = Inl [invalid_type]"

text \<open>\<^verbatim>\<open>z.number()\<close> with its checks \<^verbatim>\<open>.min(m)\<close> and \<^verbatim>\<open>.max(m)\<close>, both inclusive.\<close>

datatype number_check = CheckMin rat | CheckMax rat

fun check_issues :: "rat \<Rightarrow> number_check \<Rightarrow> issue_code list" where
  "check_issues x (CheckMin m) = (if x < m then [too_small] else [])"
| "check_issues x (CheckMax m) = (if m < x then [too_big] else [])"

fun z_number :: "number_check list \<Rightarrow> json option \<Rightarrow> issue_code list + rat" where
  "z_number checks (Some (JNumber x)) =
     (case concat (map (check_issues x) checks) of [] \<Rightarrow> Inr x | c # cs \<Rightarrow> Inl (c # cs))"
| "z_number checks _ = Inl [invalid_type]"

text \<open>\<^verbatim>\<open>z.enum([...])\<close>\<close>

fun z_enum :: "string list \<Rightarrow> json option \<Rightarrow> issue_code list + string" where
  "z_enum vals (Some (JString s)) = (if s \<in> set vals then Inr s else Inl [invalid_enum_value])"
| "z_enum vals _ = Inl [invalid_type]"

text \<open>\<^verbatim>\<open>.optional()\<close>: \<^verbatim>\<open>undefined\<close> passes, any other value goes to the inner schema.\<close>

fun z_optional :: "(json option \<Rightarrow> issue_code list + 'a) \<Rightarrow> json option \<Rightarrow> issue_code list + 'a option" where
  "z_optional inner None = Inr None"
| "z_optional inner (Some v) = (case inner (Some v) of Inl cs \<Rightarrow> Inl cs | Inr x \<Rightarrow> Inr (Some x))"

text \<open>
  A shape is the fields of an object schema: \<open>z_field\<close> parses one key, \<open>z_and\<close> puts two
  groups of fields together and collects the issues of both, \<open>z_none\<close> is the shape \<^verbatim>\<open>{}\<close>.
  Keys outside the shape are dropped.
\<close>

definition z_field :: "string \<Rightarrow> (json option \<Rightarrow> issue_code list + 'a) \<Rightarrow> args \<Rightarrow> issue list + 'a" where
  "z_field k schema a = (case schema (a k) of Inl cs \<Rightarrow> Inl (map (Pair k) cs) | Inr v \<Rightarrow> Inr v)"

definition z_and :: "(args \<Rightarrow> issue list + 'a) \<Rightarrow> (args \<Rightarrow> issue list + 'b) \<Rightarrow> args \<Rightarrow> issue list + 'a \<times> 'b" where
  "z_and p q a =
     (case p a of
        Inl is \<Rightarrow> (case q a of Inl js \<Rightarrow> Inl (is @ js) | Inr y \<Rightarrow> Inl is)
      | Inr x \<Rightarrow> (case q a of Inl js \<Rightarrow> Inl js | Inr y \<Rightarrow> Inr (x, y)))"

definition z_none :: "args \<Rightarrow> issue list + unit" where
  "z_none a = Inr ()"

definition get_user_state_shape :: "args \<Rightarrow> issue list + string" where
  "get_user_state_shape = z_field ''user_address'' z_string"

definition get_recent_trades_shape :: "args \<Rightarrow> issue list + string \<times> rat option" where
  "get_recent_trades_shape =
     z_and (z_field ''coin'' z_string)
           (z_field ''n'' (z_optional (z_number [CheckMin 1, CheckMax 1000])))"

definition get_l2_snapshot_shape :: "args \<Rightarrow> issue list + string" where
  "get_l2_snapshot_shape = z_field ''coin'' z_string"

definition get_candles_shape ::
    "args \<Rightarrow> issue list + string \<times> string \<times> rat option \<times> rat option \<times> rat option" where
  "get_candles_shape =
     z_and (z_field ''coin'' z_string)
    (z_and (z_field ''interval'' (z_enum [''1m'', ''5m'', ''15m'', ''1h'', ''4h'', ''1d'']))
    (z_and (z_field ''start_time'' (z_optional (z_number [])))
    (z_and (z_field ''end_time'' (z_optional (z_number [])))
           (z_field ''limit'' (z_optional (z_number [CheckMin 1, CheckMax 5000]))))))"

definition get_funding_rates_shape :: "args \<Rightarrow> issue list + string option" where
  "get_funding_rates_shape = z_field ''coin'' (z_optional z_string)"

definition get_open_interest_shape :: "args \<Rightarrow> issue list + string option" where
  "get_open_interest_shape = z_field ''coin'' (z_optional z_string)"

subsection \<open>Dispatch\<close>

text \<open>
  \<^verbatim>\<open>server.tool(name, shape, handler)\<close> registers a tool with the MCP server of the SDK.  A
  call parses the arguments object against the shape first: when the parse fails the
  call is refused with the issues and the handler does not run; otherwise the handler
  runs on the parsed arguments, starting from an empty list of sent requests.  The
  outcome of a call comes with the requests it has sent, so that a call that reaches the
  exchange and one that does not can be told apart.
\<close>

datatype call_outcome =
    UnknownTool
  | InvalidParams "issue list"
  | Completed tool_result
  | Raised js_error

definition server_tool ::
    "(args \<Rightarrow> issue list + 'a)
       \<Rightarrow> ('a \<Rightarrow> request list \<Rightarrow> (js_error + tool_result) \<times> request list)
       \<Rightarrow> args \<Rightarrow> call_outcome \<times> request list" where
  "server_tool shape handler a =
     (case shape a of
        Inl issues \<Rightarrow> (InvalidParams issues, [])
      | Inr parsed \<Rightarrow>
          (case handler parsed [] of
             (Inr r, sent) \<Rightarrow> (Completed r, sent)
           | (Inl err, sent) \<Rightarrow> (Raised err, sent)))"

definition call_tool :: "env \<Rightarrow> string \<Rightarrow> args \<Rightarrow> call_outcome \<times> request list" where
  "call_tool e name a =
     (if name = ''get_all_mids'' then server_tool z_none (get_all_mids e) a
      else if name = ''get_user_state'' then server_tool get_user_state_shape (get_user_state e) a
      else if name = ''get_recent_trades'' then server_tool get_recent_trades_shape (get_recent_trades e) a
      else if name = ''get_l2_snapshot'' then server_tool get_l2_snapshot_shape (get_l2_snapshot e) a
      else if name = ''get_candles'' then server_tool get_candles_shape (get_candles e) a
      else if name = ''get_meta'' then server_tool z_none (get_meta e) a
      else if name = ''get_funding_rates'' then server_tool get_funding_rates_shape (get_funding_rates e) a
      else if name = ''get_open_interest'' then server_tool get_open_interest_shape (get_open_interest e) a
      else (UnknownTool, []))"

section \<open>Stub exchanges\<close>

text \<open>
  Four exchanges for the examples: one answers 200 with the body it was sent, one answers
  500 with an \<^verbatim>\<open>error\<close> property, one answers 503 with a body that is plain text, one answers
  200 with the body of the second.
\<close>

definition coin_not_found :: json where
  "coin_not_found = JObject [(''error'', JString ''coin not found'')]"

definition echo_stub :: env where
  "echo_stub = \<lparr>upstream = (\<lambda>endpoint body. Reply 200 body),
                number_to_string = integral_to_string\<rparr>"

definition failing_stub :: env where
  "failing_stub = \<lparr>upstream = (\<lambda>endpoint body. Reply 500 coin_not_found),
                   number_to_string = integral_to_string\<rparr>"

definition bare_failing_stub :: env where
  "bare_failing_stub = \<lparr>upstream = (\<lambda>endpoint body. Reply 503 (JString ''Service Unavailable'')),
                        number_to_string = integral_to_string\<rparr>"

definition ok_error_stub :: env where
  "ok_error_stub = \<lparr>upstream = (\<lambda>endpoint body. Reply 200 coin_not_found),
                    number_to_string = integral_to_string\<rparr>"

section \<open>What a handler and a call compute\<close>

text \<open>
  The \<^verbatim>\<open>try\<close>/\<^verbatim>\<open>catch\<close> of a handler always returns a result, and it sends exactly the one
  request.
\<close>

lemma handler_body_eq:
  "handler_body e d sent =
     (Inr (case hyperliquidApi_post e ''/info'' d of
             Inr response \<Rightarrow> success_result (number_to_string e) (data response)
           | Inl err \<Rightarrow> error_result (rethrow (number_to_string e) err)),
      sent @ [(''/info'', d)])"
  by (simp add: handler_body_def makeHyperliquidRequest_def split: sum.split)

lemma server_tool_eq:
  "server_tool shape (\<lambda>p. handler_body e (f p)) a =
     (case shape a of
        Inl issues \<Rightarrow> (InvalidParams issues, [])
      | Inr p \<Rightarrow>
          (Completed (case hyperliquidApi_post e ''/info'' (f p) of
                        Inr response \<Rightarrow> success_result (number_to_string e) (data response)
                      | Inl err \<Rightarrow> error_result (rethrow (number_to_string e) err)),
           [(''/info'', f p)]))"
  by (simp add: server_tool_def handler_body_eq split: sum.split)

lemma post_ok:
  "upstream e endpoint d = Reply st body \<Longrightarrow> 200 \<le> st \<Longrightarrow> st < 300 \<Longrightarrow>
   hyperliquidApi_post e endpoint d = Inr \<lparr>status = st, data = body\<rparr>"
  by (simp add: hyperliquidApi_post_def)

lemma post_failed:
  "upstream e endpoint d = Reply st body \<Longrightarrow> \<not> (200 \<le> st \<and> st < 300) \<Longrightarrow>
   hyperliquidApi_post e endpoint d =
     Inl (AxiosError (''Request failed with status code '' @ show_nat st)
            (Some \<lparr>status = st, data = body\<rparr>))"
  by (auto simp add: hyperliquidApi_post_def)

text \<open>
  A call of any name ends in one of three ways: the name is unknown, the arguments are
  refused, or the handler completes after one request to \<^verbatim>\<open>/info\<close>.  Nothing is sent in
  the first two.
\<close>

lemma call_tool_cases:
  "call_tool e name a = (UnknownTool, [])
   \<or> (\<exists>issues. call_tool e name a = (InvalidParams issues, []))
   \<or> (\<exists>d. call_tool e name a =
        (Completed (case hyperliquidApi_post e ''/info'' d of
                      Inr response \<Rightarrow> success_result (number_to_string e) (data response)
                    | Inl err \<Rightarrow> error_result (rethrow (number_to_string e) err)),
         [(''/info'', d)]))"
  unfolding call_tool_def get_all_mids_def get_user_state_def get_recent_trades_def
    get_l2_snapshot_def get_candles_def get_meta_def get_funding_rates_def get_open_interest_def
  apply (simp only: split: if_split)
  apply (intro conjI impI)
          apply (simp_all add: server_tool_eq split_def Let_def split: sum.split)
  done

lemma funding_rates_call:
  "call_tool e ''get_funding_rates'' a =
     server_tool get_funding_rates_shape (get_funding_rates e) a"
  by (simp add: call_tool_def)

lemma open_interest_call:
  "call_tool e ''get_open_interest'' a =
     server_tool get_open_interest_shape (get_open_interest e) a"
  by (simp add: call_tool_def)

section \<open>Optional coin of the funding-rate and open-interest tools\<close>

text \<open>
  C6.  When the arguments of \<^verbatim>\<open>get_funding_rates\<close> or \<^verbatim>\<open>get_open_interest\<close> have no \<^verbatim>\<open>coin\<close>,
  the one request sent has the discriminator \<^verbatim>\<open>type\<close> as its only property: no \<^verbatim>\<open>coin\<close>
  property, neither null nor empty.
\<close>

theorem omitted_coin_no_coin_field:
  assumes "a ''coin'' = None"
  shows "snd (call_tool e ''get_funding_rates'' a)
           = [(''/info'', JObject [(''type'', JString ''fundingRate'')])]
       \<and> snd (call_tool e ''get_open_interest'' a)
           = [(''/info'', JObject [(''type'', JString ''openInterest'')])]"
  using assms
  by (simp add: funding_rates_call open_interest_call server_tool_def get_funding_rates_shape_def
      get_open_interest_shape_def z_field_def get_funding_rates_def get_open_interest_def
      spread_coin_def handler_body_eq)

theorem omitted_coin_no_coin_field_witness:
  "Map.empty ''coin'' = (None :: json option)
   \<and> snd (call_tool echo_stub ''get_funding_rates'' Map.empty)
       = [(''/info'', JObject [(''type'', JString ''fundingRate'')])]
   \<and> snd (call_tool echo_stub ''get_open_interest'' Map.empty)
       = [(''/info'', JObject [(''type'', JString ''openInterest'')])]"
  using omitted_coin_no_coin_field [of Map.empty echo_stub] by simp

text \<open>
  C8.  When \<^verbatim>\<open>coin\<close> is the empty string, the request of either tool again has the
  discriminator only, and the whole call is the call without \<^verbatim>\<open>coin\<close>.
\<close>

theorem empty_coin_no_coin_field:
  assumes "a ''coin'' = Some (JString [])"
  shows "snd (call_tool e ''get_funding_rates'' a)
           = [(''/info'', JObject [(''type'', JString ''fundingRate'')])]
       \<and> snd (call_tool e ''get_open_interest'' a)
           = [(''/info'', JObject [(''type'', JString ''openInterest'')])]
       \<and> call_tool e ''get_funding_rates'' a = call_tool e ''get_funding_rates'' (a(''coin'' := None))
       \<and> call_tool e ''get_open_interest'' a = call_tool e ''get_open_interest'' (a(''coin'' := None))"
  using assms
  by (simp add: funding_rates_call open_interest_call server_tool_def get_funding_rates_shape_def
      get_open_interest_shape_def z_field_def get_funding_rates_def get_open_interest_def
      spread_coin_def handler_body_eq)

theorem empty_coin_no_coin_field_witness:
  "[''coin'' \<mapsto> JString []] ''coin'' = Some (JString [])
   \<and> snd (call_tool echo_stub ''get_funding_rates'' [''coin'' \<mapsto> JString []])
       = [(''/info'', JObject [(''type'', JString ''fundingRate'')])]
   \<and> snd (call_tool echo_stub ''get_open_interest'' [''coin'' \<mapsto> JString []])
       = [(''/info'', JObject [(''type'', JString ''openInterest'')])]
   \<and> call_tool echo_stub ''get_funding_rates'' [''coin'' \<mapsto> JString []]
       = call_tool echo_stub ''get_funding_rates'' Map.empty
   \<and> call_tool echo_stub ''get_open_interest'' [''coin'' \<mapsto> JString []]
       = call_tool echo_stub ''get_open_interest'' Map.empty"
proof -
  have h: "[''coin'' \<mapsto> JString []] ''coin'' = Some (JString [])"
    by simp
  have upd: "[''coin'' \<mapsto> JString []](''coin'' := None) = Map.empty"
    by simp
  show ?thesis
    using h empty_coin_no_coin_field [of "[''coin'' \<mapsto> JString []]" echo_stub, OF h]
    unfolding upd by blast
qed

section \<open>Arguments the schemas refuse\<close>

lemma z_and_left_refused:
  "p a = Inl issues \<Longrightarrow> \<exists>issues'. z_and p q a = Inl issues'"
  by (simp add: z_and_def split: sum.split)

lemma z_and_right_refused:
  "q a = Inl issues \<Longrightarrow> \<exists>issues'. z_and p q a = Inl issues'"
  by (simp add: z_and_def split: sum.split)

lemma z_enum_refused:
  assumes "\<forall>s \<in> set vals. v \<noteq> Some (JString s)"
  shows "\<exists>codes. z_enum vals v = Inl codes"
  using assms by (cases "(vals, v)" rule: z_enum.cases) auto

lemma z_field_refused:
  "schema (a k) = Inl codes \<Longrightarrow> z_field k schema a = Inl (map (Pair k) codes)"
  by (simp add: z_field_def)

lemma server_tool_refused:
  "shape a = Inl issues \<Longrightarrow> server_tool shape handler a = (InvalidParams issues, [])"
  by (simp add: server_tool_def)

text \<open>
  C4.  A call of \<^verbatim>\<open>get_candles\<close> whose \<^verbatim>\<open>interval\<close> is none of \<^verbatim>\<open>1m\<close>, \<^verbatim>\<open>5m\<close>, \<^verbatim>\<open>15m\<close>, \<^verbatim>\<open>1h\<close>, \<^verbatim>\<open>4h\<close>,
  \<^verbatim>\<open>1d\<close> (another string, another kind of value, or no value) is refused as invalid
  arguments, and no request is sent.
\<close>

theorem get_candles_interval_refused:
  assumes "\<forall>s \<in> set [''1m'', ''5m'', ''15m'', ''1h'', ''4h'', ''1d'']. a ''interval'' \<noteq> Some (JString s)"
  shows "\<exists>issues. call_tool e ''get_candles'' a = (InvalidParams issues, [])"
proof -
  obtain codes where
    "z_enum [''1m'', ''5m'', ''15m'', ''1h'', ''4h'', ''1d''] (a ''interval'') = Inl codes"
    using z_enum_refused [OF assms] by blast
  then have "z_field ''interval'' (z_enum [''1m'', ''5m'', ''15m'', ''1h'', ''4h'', ''1d'']) a
               = Inl (map (Pair ''interval'') codes)"
    by (rule z_field_refused)
  then obtain issues where "get_candles_shape a = Inl issues"
    unfolding get_candles_shape_def
    using z_and_left_refused z_and_right_refused by meson
  then have "server_tool get_candles_shape (get_candles e) a = (InvalidParams issues, [])"
    by (rule server_tool_refused)
  then show ?thesis
    by (simp add: call_tool_def)
qed

theorem get_candles_interval_refused_witness:
  "[''coin'' \<mapsto> JString ''BTC'', ''interval'' \<mapsto> JString ''2m''] ''interval'' = Some (JString ''2m'')
   \<and> ''2m'' \<notin> set [''1m'', ''5m'', ''15m'', ''1h'', ''4h'', ''1d'']
   \<and> call_tool echo_stub ''get_candles'' [''coin'' \<mapsto> JString ''BTC'', ''interval'' \<mapsto> JString ''2m'']
       = (InvalidParams [(''interval'', invalid_enum_value)], [])"
proof -
  have h: "\<forall>s \<in> set [''1m'', ''5m'', ''15m'', ''1h'', ''4h'', ''1d''].
      [''coin'' \<mapsto> JString ''BTC'', ''interval'' \<mapsto> JString ''2m''] ''interval'' \<noteq> Some (JString s)"
    by simp
  from get_candles_interval_refused [of "[''coin'' \<mapsto> JString ''BTC'', ''interval'' \<mapsto> JString ''2m'']" echo_stub, OF h]
  obtain issues where
    c: "call_tool echo_stub ''get_candles'' [''coin'' \<mapsto> JString ''BTC'', ''interval'' \<mapsto> JString ''2m'']
          = (InvalidParams issues, [])"
    by blast
  have "fst (call_tool echo_stub ''get_candles'' [''coin'' \<mapsto> JString ''BTC'', ''interval'' \<mapsto> JString ''2m''])
          = InvalidParams [(''interval'', invalid_enum_value)]"
    by (simp add: call_tool_def server_tool_def get_candles_shape_def z_and_def z_field_def)
  with c have "issues = [(''interval'', invalid_enum_value)]"
    by simp
  with c show ?thesis
    by simp
qed

text \<open>
  C5.  A call of \<^verbatim>\<open>get_l2_snapshot\<close> without \<^verbatim>\<open>coin\<close>, or of \<^verbatim>\<open>get_user_state\<close> without
  \<^verbatim>\<open>user_address\<close>, is refused as invalid arguments, and no request is sent.
\<close>

theorem required_string_missing_refused:
  "(a ''coin'' = None \<longrightarrow>
      call_tool e ''get_l2_snapshot'' a = (InvalidParams [(''coin'', invalid_type)], []))
   \<and> (a ''user_address'' = None \<longrightarrow>
      call_tool e ''get_user_state'' a = (InvalidParams [(''user_address'', invalid_type)], []))"
  by (simp add: call_tool_def server_tool_def get_l2_snapshot_shape_def get_user_state_shape_def
      z_field_def)

theorem required_string_missing_refused_witness:
  "Map.empty ''coin'' = (None :: json option)
   \<and> call_tool echo_stub ''get_l2_snapshot'' Map.empty = (InvalidParams [(''coin'', invalid_type)], [])
   \<and> Map.empty ''user_address'' = (None :: json option)
   \<and> call_tool echo_stub ''get_user_state'' Map.empty
       = (InvalidParams [(''user_address'', invalid_type)], [])"
  using required_string_missing_refused [of Map.empty echo_stub] by simp

section \<open>The trade count of the recent trades tool\<close>

lemma recent_trades_call:
  "call_tool e ''get_recent_trades'' a =
     server_tool get_recent_trades_shape (get_recent_trades e) a"
  by (simp add: call_tool_def)

lemma recent_trades_handler_sends:
  "snd (get_recent_trades e (coin, n_arg) sent) =
     sent @ [(''/info'', JObject [(''type'', JString ''trades''), (''coin'', JString coin),
                                 (''n'', JNumber (min (case n_arg of None \<Rightarrow> 100 | Some v \<Rightarrow> v) 1000))])]"
  by (simp add: get_recent_trades_def handler_body_eq)

lemma recent_trades_accepted:
  assumes "a ''coin'' = Some (JString coin)"
    and "a ''n'' = None \<or> (\<exists>n. a ''n'' = Some (JNumber n) \<and> 1 \<le> n \<and> n \<le> 1000)"
  shows "get_recent_trades_shape a
           = Inr (coin, case a ''n'' of None \<Rightarrow> None | Some v \<Rightarrow> (case v of JNumber n \<Rightarrow> Some n | _ \<Rightarrow> None))"
  using assms
  by (auto simp add: get_recent_trades_shape_def z_and_def z_field_def)

text \<open>
  C1.  The schema of \<^verbatim>\<open>n\<close> is \<^verbatim>\<open>z.number().min(1).max(1000).optional()\<close>, and the handler
  sends \<^verbatim>\<open>Math.min(n, 1000)\<close>.  A call of \<^verbatim>\<open>get_recent_trades\<close> whose \<^verbatim>\<open>n\<close> is above 1000 is
  refused as invalid arguments, with the issue \<^verbatim>\<open>too_big\<close> on \<^verbatim>\<open>n\<close>, and sends nothing.  The clamp
  is the handler's: run on such an \<^verbatim>\<open>n\<close>, the handler sends the request with \<^verbatim>\<open>n\<close> equal to
  1000.
\<close>

theorem get_recent_trades_above_cap:
  assumes "a ''n'' = Some (JNumber n)" and "1000 < n"
  shows "(\<exists>issues. call_tool e ''get_recent_trades'' a = (InvalidParams issues, [])
            \<and> (''n'', too_big) \<in> set issues)
       \<and> snd (get_recent_trades e (coin, Some n) [])
           = [(''/info'', JObject [(''type'', JString ''trades''), (''coin'', JString coin),
                                  (''n'', JNumber 1000)])]"
proof -
  have field: "z_field ''n'' (z_optional (z_number [CheckMin 1, CheckMax 1000])) a
                 = Inl [(''n'', too_big)]"
    using assms by (simp add: z_field_def)
  have "\<exists>issues. get_recent_trades_shape a = Inl issues \<and> (''n'', too_big) \<in> set issues"
    unfolding get_recent_trades_shape_def z_and_def field
    by (simp split: sum.split)
  then have "\<exists>issues. call_tool e ''get_recent_trades'' a = (InvalidParams issues, [])
               \<and> (''n'', too_big) \<in> set issues"
    unfolding recent_trades_call using server_tool_refused by fastforce
  moreover have "min n 1000 = 1000"
    using assms(2) by simp
  ultimately show ?thesis
    by (simp add: recent_trades_handler_sends)
qed

theorem get_recent_trades_above_cap_witness:
  "[''coin'' \<mapsto> JString ''BTC'', ''n'' \<mapsto> JNumber 5000] ''n'' = Some (JNumber 5000)
   \<and> (1000 :: rat) < 5000
   \<and> call_tool echo_stub ''get_recent_trades'' [''coin'' \<mapsto> JString ''BTC'', ''n'' \<mapsto> JNumber 5000]
       = (InvalidParams [(''n'', too_big)], [])
   \<and> snd (get_recent_trades echo_stub (''BTC'', Some 5000) [])
       = [(''/info'', JObject [(''type'', JString ''trades''), (''coin'', JString ''BTC''),
                              (''n'', JNumber 1000)])]"
proof -
  have h1: "[''coin'' \<mapsto> JString ''BTC'', ''n'' \<mapsto> JNumber 5000] ''n'' = Some (JNumber 5000)"
    by simp
  have h2: "(1000 :: rat) < 5000"
    by simp
  have shape: "get_recent_trades_shape [''coin'' \<mapsto> JString ''BTC'', ''n'' \<mapsto> JNumber 5000]
                 = Inl [(''n'', too_big)]"
    by (simp add: get_recent_trades_shape_def z_and_def z_field_def)
  show ?thesis
    using h1 h2
      get_recent_trades_above_cap
        [of "[''coin'' \<mapsto> JString ''BTC'', ''n'' \<mapsto> JNumber 5000]" 5000 echo_stub "''BTC''", OF h1 h2]
    by (auto simp add: recent_trades_call server_tool_def shape)
qed

text \<open>
  The call with \<^verbatim>\<open>n = 5000\<close> is therefore not clamped: it is refused and no request goes
  out.
\<close>

theorem get_recent_trades_above_cap_counterexample:
  "call_tool echo_stub ''get_recent_trades'' [''coin'' \<mapsto> JString ''BTC'', ''n'' \<mapsto> JNumber 5000]
     = (InvalidParams [(''n'', too_big)], [])"
  by (simp add: call_tool_def server_tool_def get_recent_trades_shape_def z_and_def z_field_def)

text \<open>
  C7.  With \<^verbatim>\<open>coin\<close> a string and \<^verbatim>\<open>n\<close> within its bounds the request is
  \<^verbatim>\<open>{type: "trades", coin, n}\<close>, for the arguments \<^verbatim>\<open>{coin: "BTC", n: 50}\<close> exactly
  \<^verbatim>\<open>{type: "trades", coin: "BTC", n: 50}\<close>; without \<^verbatim>\<open>n\<close> the request carries 100; and when the
  exchange answers with a 2xx status the result is the answer's body, serialized and
  not flagged.
\<close>

theorem get_recent_trades_request:
  assumes "a ''coin'' = Some (JString coin)"
  shows "(\<forall>n. a ''n'' = Some (JNumber n) \<and> 1 \<le> n \<and> n \<le> 1000 \<longrightarrow>
            snd (call_tool e ''get_recent_trades'' a)
              = [(''/info'', JObject [(''type'', JString ''trades''), (''coin'', JString coin),
                                     (''n'', JNumber n)])])
       \<and> (a ''n'' = None \<longrightarrow>
            snd (call_tool e ''get_recent_trades'' a)
              = [(''/info'', JObject [(''type'', JString ''trades''), (''coin'', JString coin),
                                     (''n'', JNumber 100)])])
       \<and> (\<forall>body st d. snd (call_tool e ''get_recent_trades'' a) = [(''/info'', body)]
              \<and> upstream e ''/info'' body = Reply st d \<and> 200 \<le> st \<and> st < 300 \<longrightarrow>
            fst (call_tool e ''get_recent_trades'' a)
              = Completed \<lparr>content = [\<lparr>content_type = ''text'',
                                         content_text = JSON_stringify (number_to_string e) d\<rparr>],
                           isError = None\<rparr>)"
proof (intro conjI allI impI)
  fix n
  assume n: "a ''n'' = Some (JNumber n) \<and> 1 \<le> n \<and> n \<le> 1000"
  then have "get_recent_trades_shape a = Inr (coin, Some n)"
    using recent_trades_accepted [of a coin] assms by auto
  moreover have "min n 1000 = n"
    using n by simp
  ultimately show "snd (call_tool e ''get_recent_trades'' a)
              = [(''/info'', JObject [(''type'', JString ''trades''), (''coin'', JString coin),
                                     (''n'', JNumber n)])]"
    by (simp add: recent_trades_call server_tool_def get_recent_trades_def handler_body_eq)
next
  assume "a ''n'' = None"
  then have "get_recent_trades_shape a = Inr (coin, None)"
    using recent_trades_accepted [of a coin] assms by auto
  then show "snd (call_tool e ''get_recent_trades'' a)
              = [(''/info'', JObject [(''type'', JString ''trades''), (''coin'', JString coin),
                                     (''n'', JNumber 100)])]"
    by (simp add: recent_trades_call server_tool_def get_recent_trades_def handler_body_eq)
next
  fix body st d
  assume h: "snd (call_tool e ''get_recent_trades'' a) = [(''/info'', body)]
              \<and> upstream e ''/info'' body = Reply st d \<and> 200 \<le> st \<and> st < 300"
  then have post: "hyperliquidApi_post e ''/info'' body = Inr \<lparr>status = st, data = d\<rparr>"
    by (simp add: post_ok)
  from call_tool_cases [of e "''get_recent_trades''" a] h post
  show "fst (call_tool e ''get_recent_trades'' a)
              = Completed \<lparr>content = [\<lparr>content_type = ''text'',
                                         content_text = JSON_stringify (number_to_string e) d\<rparr>],
                           isError = None\<rparr>"
    by (auto simp add: success_result_def)
qed

theorem get_recent_trades_request_witness:
  "call_tool echo_stub ''get_recent_trades'' [''coin'' \<mapsto> JString ''BTC'', ''n'' \<mapsto> JNumber 50]
     = (Completed \<lparr>content = [\<lparr>content_type = ''text'',
                     content_text = JSON_stringify integral_to_string
                       (JObject [(''type'', JString ''trades''), (''coin'', JString ''BTC''),
                                 (''n'', JNumber 50)])\<rparr>],
                   isError = None\<rparr>,
        [(''/info'', JObject [(''type'', JString ''trades''), (''coin'', JString ''BTC''),
                             (''n'', JNumber 50)])])
   \<and> snd (call_tool echo_stub ''get_recent_trades'' [''coin'' \<mapsto> JString ''BTC''])
       = [(''/info'', JObject [(''type'', JString ''trades''), (''coin'', JString ''BTC''),
                              (''n'', JNumber 100)])]"
proof -
  let ?a = "[''coin'' \<mapsto> JString ''BTC'', ''n'' \<mapsto> JNumber 50]"
  let ?b = "[''coin'' \<mapsto> JString ''BTC'']"
  let ?body = "JObject [(''type'', JString ''trades''), (''coin'', JString ''BTC''), (''n'', JNumber 50)]"
  have ha: "?a ''coin'' = Some (JString ''BTC'')" and hb: "?b ''coin'' = Some (JString ''BTC'')"
    by simp_all
  note A = get_recent_trades_request [of ?a "''BTC''" echo_stub, OF ha]
  note B = get_recent_trades_request [of ?b "''BTC''" echo_stub, OF hb]
  have sent: "snd (call_tool echo_stub ''get_recent_trades'' ?a) = [(''/info'', ?body)]"
    using A by simp
  have up: "upstream echo_stub ''/info'' ?body = Reply 200 ?body"
    by (simp add: echo_stub_def)
  have "fst (call_tool echo_stub ''get_recent_trades'' ?a)
          = Completed \<lparr>content = [\<lparr>content_type = ''text'',
                          content_text = JSON_stringify (number_to_string echo_stub) ?body\<rparr>],
                        isError = None\<rparr>"
    using A sent up by simp
  moreover have "number_to_string echo_stub = integral_to_string"
    by (simp add: echo_stub_def)
  moreover have "snd (call_tool echo_stub ''get_recent_trades'' ?b)
       = [(''/info'', JObject [(''type'', JString ''trades''), (''coin'', JString ''BTC''),
                              (''n'', JNumber 100)])]"
    using B by simp
  ultimately show ?thesis
    using sent by (simp add: prod_eq_iff)
qed

section \<open>The time bounds of the candles tool\<close>

lemma candles_call:
  "call_tool e ''get_candles'' a = server_tool get_candles_shape (get_candles e) a"
  by (simp add: call_tool_def)

lemma z_optional_number_accepted:
  assumes "z_optional (z_number checks) v = Inr r"
  shows "(v = None \<and> r = None) \<or> (\<exists>x. v = Some (JNumber x) \<and> r = Some x)"
proof (cases v)
  case None
  with assms show ?thesis by simp
next
  case (Some j)
  with assms show ?thesis
    by (cases j) (auto split: sum.splits list.splits)
qed

lemma z_and_accepted:
  "z_and p q a = Inr (x, y) \<longleftrightarrow> p a = Inr x \<and> q a = Inr y"
  by (auto simp add: z_and_def split: sum.splits)

lemma z_field_accepted:
  "z_field k schema a = Inr v \<longleftrightarrow> schema (a k) = Inr v"
  by (auto simp add: z_field_def split: sum.splits)

lemma get_candles_shape_times:
  assumes "get_candles_shape a = Inr (coin, interval, start_time, end_time, limit_arg)"
  shows "((a ''start_time'' = None \<and> start_time = None)
           \<or> (\<exists>x. a ''start_time'' = Some (JNumber x) \<and> start_time = Some x))
       \<and> ((a ''end_time'' = None \<and> end_time = None)
           \<or> (\<exists>x. a ''end_time'' = Some (JNumber x) \<and> end_time = Some x))"
  using assms z_optional_number_accepted
  unfolding get_candles_shape_def z_and_accepted z_field_accepted
  by blast

lemma get_candles_sends:
  "snd (get_candles e (coin, interval, start_time, end_time, limit_arg) []) =
     [(''/info'', JObject
        (set_if_truthy ''endTime'' end_time
          (set_if_truthy ''startTime'' start_time
            [(''type'', JString ''candles''), (''coin'', JString coin),
             (''interval'', JString interval),
             (''limit'', JNumber (min (case limit_arg of None \<Rightarrow> 500 | Some v \<Rightarrow> v) 5000))])))]"
  by (simp add: get_candles_def handler_body_eq Let_def)

lemma candles_zero_start_shape:
  assumes "a ''start_time'' = Some (JNumber 0)"
  shows "get_candles_shape a
           = (case get_candles_shape (a(''start_time'' := None)) of
                Inl issues \<Rightarrow> Inl issues
              | Inr (coin, interval, start_time, rest) \<Rightarrow> Inr (coin, interval, Some 0, rest))"
  using assms
  by (simp add: get_candles_shape_def z_and_def z_field_def split: sum.split)

lemma candles_zero_end_shape:
  assumes "a ''end_time'' = Some (JNumber 0)"
  shows "get_candles_shape a
           = (case get_candles_shape (a(''end_time'' := None)) of
                Inl issues \<Rightarrow> Inl issues
              | Inr (coin, interval, start_time, end_time, rest) \<Rightarrow>
                  Inr (coin, interval, start_time, Some 0, rest))"
  using assms
  by (simp add: get_candles_shape_def z_and_def z_field_def split: sum.split)

lemma get_candles_zero_start:
  "get_candles e (coin, interval, Some 0, rest) = get_candles e (coin, interval, None, rest)"
  by (cases rest) (simp add: get_candles_def set_if_truthy_def)

lemma get_candles_zero_end:
  "get_candles e (coin, interval, start_time, Some 0, rest)
     = get_candles e (coin, interval, start_time, None, rest)"
  by (simp add: get_candles_def set_if_truthy_def)

text \<open>
  C9.  A \<^verbatim>\<open>start_time\<close> or \<^verbatim>\<open>end_time\<close> of zero makes the call the same as the call without
  that argument.  In a call whose arguments the schema accepts, the request has no
  \<^verbatim>\<open>startTime\<close> (\<^verbatim>\<open>endTime\<close>) when the argument is zero or absent, it has the argument's value
  under \<^verbatim>\<open>startTime\<close> (\<^verbatim>\<open>endTime\<close>) when that value is not zero, and it never has a property
  under the argument's own name.
\<close>

theorem get_candles_time_fields:
  "(a ''start_time'' = Some (JNumber 0) \<longrightarrow>
      call_tool e ''get_candles'' a = call_tool e ''get_candles'' (a(''start_time'' := None)))
   \<and> (a ''end_time'' = Some (JNumber 0) \<longrightarrow>
      call_tool e ''get_candles'' a = call_tool e ''get_candles'' (a(''end_time'' := None)))
   \<and> ((\<forall>issues. fst (call_tool e ''get_candles'' a) \<noteq> InvalidParams issues) \<longrightarrow>
      (\<exists>kvs. snd (call_tool e ''get_candles'' a) = [(''/info'', JObject kvs)]
         \<and> (a ''start_time'' = None \<or> a ''start_time'' = Some (JNumber 0) \<longrightarrow>
              map_of kvs ''startTime'' = None)
         \<and> (a ''end_time'' = None \<or> a ''end_time'' = Some (JNumber 0) \<longrightarrow>
              map_of kvs ''endTime'' = None)
         \<and> (\<forall>v. a ''start_time'' = Some (JNumber v) \<and> v \<noteq> 0 \<longrightarrow>
              map_of kvs ''startTime'' = Some (JNumber v))
         \<and> (\<forall>v. a ''end_time'' = Some (JNumber v) \<and> v \<noteq> 0 \<longrightarrow>
              map_of kvs ''endTime'' = Some (JNumber v))
         \<and> map_of kvs ''start_time'' = None \<and> map_of kvs ''end_time'' = None))"
proof (intro conjI impI)
  assume z: "a ''start_time'' = Some (JNumber 0)"
  show "call_tool e ''get_candles'' a = call_tool e ''get_candles'' (a(''start_time'' := None))"
  proof (cases "get_candles_shape (a(''start_time'' := None))")
    case (Inl issues)
    then show ?thesis
      unfolding candles_call server_tool_def candles_zero_start_shape [of a, OF z] by simp
  next
    case (Inr p)
    obtain coin interval start_time end_time limit_arg where
      p: "p = (coin, interval, start_time, end_time, limit_arg)"
      by (cases p)
    have "start_time = None"
      using get_candles_shape_times [of "a(''start_time'' := None)" coin interval start_time end_time limit_arg]
        Inr p by simp
    then show ?thesis
      unfolding candles_call server_tool_def candles_zero_start_shape [of a, OF z] Inr p
      by (simp add: get_candles_zero_start)
  qed
next
  assume z: "a ''end_time'' = Some (JNumber 0)"
  show "call_tool e ''get_candles'' a = call_tool e ''get_candles'' (a(''end_time'' := None))"
  proof (cases "get_candles_shape (a(''end_time'' := None))")
    case (Inl issues)
    then show ?thesis
      unfolding candles_call server_tool_def candles_zero_end_shape [of a, OF z] by simp
  next
    case (Inr p)
    obtain coin interval start_time end_time limit_arg where
      p: "p = (coin, interval, start_time, end_time, limit_arg)"
      by (cases p)
    have "end_time = None"
      using get_candles_shape_times [of "a(''end_time'' := None)" coin interval start_time end_time limit_arg]
        Inr p by simp
    then show ?thesis
      unfolding candles_call server_tool_def candles_zero_end_shape [of a, OF z] Inr p
      by (simp add: get_candles_zero_end)
  qed
next
  assume valid: "\<forall>issues. fst (call_tool e ''get_candles'' a) \<noteq> InvalidParams issues"
  then obtain coin interval start_time end_time limit_arg where
    shape: "get_candles_shape a = Inr (coin, interval, start_time, end_time, limit_arg)"
    unfolding candles_call server_tool_def
    by (cases "get_candles_shape a") auto
  let ?kvs = "set_if_truthy ''endTime'' end_time
          (set_if_truthy ''startTime'' start_time
            [(''type'', JString ''candles''), (''coin'', JString coin),
             (''interval'', JString interval),
             (''limit'', JNumber (min (case limit_arg of None \<Rightarrow> 500 | Some v \<Rightarrow> v) 5000))])"
  have sent: "snd (call_tool e ''get_candles'' a) = [(''/info'', JObject ?kvs)]"
    unfolding candles_call server_tool_def shape
    using get_candles_sends [of e coin interval start_time end_time limit_arg]
    by (simp add: split_def split: sum.split)
  have times: "((a ''start_time'' = None \<and> start_time = None)
           \<or> (\<exists>x. a ''start_time'' = Some (JNumber x) \<and> start_time = Some x))
       \<and> ((a ''end_time'' = None \<and> end_time = None)
           \<or> (\<exists>x. a ''end_time'' = Some (JNumber x) \<and> end_time = Some x))"
    using get_candles_shape_times [OF shape] .
  have "(a ''start_time'' = None \<or> a ''start_time'' = Some (JNumber 0) \<longrightarrow>
              map_of ?kvs ''startTime'' = None)
         \<and> (a ''end_time'' = None \<or> a ''end_time'' = Some (JNumber 0) \<longrightarrow>
              map_of ?kvs ''endTime'' = None)
         \<and> (\<forall>v. a ''start_time'' = Some (JNumber v) \<and> v \<noteq> 0 \<longrightarrow>
              map_of ?kvs ''startTime'' = Some (JNumber v))
         \<and> (\<forall>v. a ''end_time'' = Some (JNumber v) \<and> v \<noteq> 0 \<longrightarrow>
              map_of ?kvs ''endTime'' = Some (JNumber v))
         \<and> map_of ?kvs ''start_time'' = None \<and> map_of ?kvs ''end_time'' = None"
    using times by (auto simp add: set_if_truthy_def)
  with sent show "\<exists>kvs. snd (call_tool e ''get_candles'' a) = [(''/info'', JObject kvs)]
         \<and> (a ''start_time'' = None \<or> a ''start_time'' = Some (JNumber 0) \<longrightarrow>
              map_of kvs ''startTime'' = None)
         \<and> (a ''end_time'' = None \<or> a ''end_time'' = Some (JNumber 0) \<longrightarrow>
              map_of kvs ''endTime'' = None)
         \<and> (\<forall>v. a ''start_time'' = Some (JNumber v) \<and> v \<noteq> 0 \<longrightarrow>
              map_of kvs ''startTime'' = Some (JNumber v))
         \<and> (\<forall>v. a ''end_time'' = Some (JNumber v) \<and> v \<noteq> 0 \<longrightarrow>
              map_of kvs ''endTime'' = Some (JNumber v))
         \<and> map_of kvs ''start_time'' = None \<and> map_of kvs ''end_time'' = None"
    by blast
qed

theorem get_candles_time_fields_witness:
  "[''coin'' \<mapsto> JString ''BTC'', ''interval'' \<mapsto> JString ''1m'',
    ''start_time'' \<mapsto> JNumber 0, ''end_time'' \<mapsto> JNumber 17] ''start_time'' = Some (JNumber 0)
   \<and> call_tool echo_stub ''get_candles''
        [''coin'' \<mapsto> JString ''BTC'', ''interval'' \<mapsto> JString ''1m'',
         ''start_time'' \<mapsto> JNumber 0, ''end_time'' \<mapsto> JNumber 17]
       = call_tool echo_stub ''get_candles''
           [''coin'' \<mapsto> JString ''BTC'', ''interval'' \<mapsto> JString ''1m'', ''end_time'' \<mapsto> JNumber 17]
   \<and> snd (call_tool echo_stub ''get_candles''
        [''coin'' \<mapsto> JString ''BTC'', ''interval'' \<mapsto> JString ''1m'',
         ''start_time'' \<mapsto> JNumber 0, ''end_time'' \<mapsto> JNumber 17])
       = [(''/info'', JObject [(''type'', JString ''candles''), (''coin'', JString ''BTC''),
                              (''interval'', JString ''1m''), (''limit'', JNumber 500),
                              (''endTime'', JNumber 17)])]"
proof -
  let ?a = "[''coin'' \<mapsto> JString ''BTC'', ''interval'' \<mapsto> JString ''1m'',
             ''start_time'' \<mapsto> JNumber 0, ''end_time'' \<mapsto> JNumber 17]"
  let ?b = "[''coin'' \<mapsto> JString ''BTC'', ''interval'' \<mapsto> JString ''1m'',
             ''end_time'' \<mapsto> JNumber 17]"
  have zero: "?a ''start_time'' = Some (JNumber 0)"
    by simp
  have upd: "?a(''start_time'' := None) = ?b"
    by (rule ext) simp
  have same: "call_tool echo_stub ''get_candles'' ?a = call_tool echo_stub ''get_candles'' ?b"
    using get_candles_time_fields [of ?a echo_stub] zero unfolding upd by blast
  have "snd (call_tool echo_stub ''get_candles'' ?b)
       = [(''/info'', JObject [(''type'', JString ''candles''), (''coin'', JString ''BTC''),
                              (''interval'', JString ''1m''), (''limit'', JNumber 500),
                              (''endTime'', JNumber 17)])]"
    by (simp add: candles_call server_tool_def get_candles_shape_def z_and_def z_field_def
        get_candles_def set_if_truthy_def handler_body_eq)
  with same zero show ?thesis
    by simp
qed

section \<open>Failures of the exchange\<close>

lemma l2_snapshot_call:
  "a ''coin'' = Some (JString coin) \<Longrightarrow>
   call_tool e ''get_l2_snapshot'' a =
     (Completed (case hyperliquidApi_post e ''/info''
                        (JObject [(''type'', JString ''l2Book''), (''coin'', JString coin)]) of
                   Inr response \<Rightarrow> success_result (number_to_string e) (data response)
                 | Inl err \<Rightarrow> error_result (rethrow (number_to_string e) err)),
      [(''/info'', JObject [(''type'', JString ''l2Book''), (''coin'', JString coin)])])"
  by (simp add: call_tool_def server_tool_def get_l2_snapshot_shape_def z_field_def
      get_l2_snapshot_def handler_body_eq)

text \<open>
  C3.  \<^verbatim>\<open>get_l2_snapshot\<close> with a string \<^verbatim>\<open>coin\<close>, answered with a status outside 2xx.  When
  the body of the answer has an \<^verbatim>\<open>error\<close> property that is a string, the result is flagged
  and its text contains that string: the text is \<^verbatim>\<open>Error: Hyperliquid API error: \<close> followed
  by the string, unless the string is empty.  When the body has no \<^verbatim>\<open>error\<close> property, the
  result is flagged and its text ends in the message of axios,
  \<^verbatim>\<open>Request failed with status code\<close> and the status.
\<close>

theorem get_l2_snapshot_upstream_error:
  assumes "a ''coin'' = Some (JString coin)"
    and "upstream e ''/info'' (JObject [(''type'', JString ''l2Book''), (''coin'', JString coin)])
           = Reply st body"
    and "\<not> (200 \<le> st \<and> st < 300)"
  shows "(\<forall>reason. error_property body = Some (JString reason) \<longrightarrow>
            (\<exists>before after.
               fst (call_tool e ''get_l2_snapshot'' a)
                 = Completed \<lparr>content = [\<lparr>content_type = ''text'',
                                            content_text = before @ reason @ after\<rparr>],
                              isError = Some True\<rparr>)
            \<and> (reason \<noteq> [] \<longrightarrow>
               fst (call_tool e ''get_l2_snapshot'' a)
                 = Completed \<lparr>content = [\<lparr>content_type = ''text'',
                                            content_text = ''Error: Hyperliquid API error: '' @ reason\<rparr>],
                              isError = Some True\<rparr>))
       \<and> (error_property body = None \<longrightarrow>
            fst (call_tool e ''get_l2_snapshot'' a)
              = Completed \<lparr>content = [\<lparr>content_type = ''text'',
                              content_text = ''Error: Hyperliquid API error: ''
                                @ ''Request failed with status code '' @ show_nat st\<rparr>],
                           isError = Some True\<rparr>)"
proof -
  let ?msg = "''Request failed with status code '' @ show_nat st"
  have post: "hyperliquidApi_post e ''/info''
                (JObject [(''type'', JString ''l2Book''), (''coin'', JString coin)])
              = Inl (AxiosError ?msg (Some \<lparr>status = st, data = body\<rparr>))"
    using assms(2,3) by (rule post_failed)
  have result: "fst (call_tool e ''get_l2_snapshot'' a)
      = Completed \<lparr>content = [\<lparr>content_type = ''text'',
            content_text = ''Error: Hyperliquid API error: ''
              @ (case error_property body of
                   None \<Rightarrow> ?msg
                 | Some v \<Rightarrow> if truthy (Some v) then to_string (number_to_string e) v else ?msg)\<rparr>],
          isError = Some True\<rparr>"
    by (simp add: l2_snapshot_call [of a coin, OF assms(1)] post error_result_def
        response_data_error_def js_or_def split: option.split)
  show ?thesis
  proof (intro conjI allI impI)
    fix reason
    assume reason: "error_property body = Some (JString reason)"
    show "\<exists>before after.
               fst (call_tool e ''get_l2_snapshot'' a)
                 = Completed \<lparr>content = [\<lparr>content_type = ''text'',
                                            content_text = before @ reason @ after\<rparr>],
                              isError = Some True\<rparr>"
    proof (cases "reason = []")
      case True
      have "fst (call_tool e ''get_l2_snapshot'' a)
              = Completed \<lparr>content = [\<lparr>content_type = ''text'',
                    content_text = (''Error: Hyperliquid API error: '' @ ?msg) @ reason @ []\<rparr>],
                  isError = Some True\<rparr>"
        using True by (simp add: result reason)
      then show ?thesis by blast
    next
      case False
      have "fst (call_tool e ''get_l2_snapshot'' a)
              = Completed \<lparr>content = [\<lparr>content_type = ''text'',
                    content_text = ''Error: Hyperliquid API error: '' @ reason @ []\<rparr>],
                  isError = Some True\<rparr>"
        using False by (simp add: result reason)
      then show ?thesis by blast
    qed
  next
    fix reason
    assume "error_property body = Some (JString reason)" and "reason \<noteq> []"
    then show "fst (call_tool e ''get_l2_snapshot'' a)
                 = Completed \<lparr>content = [\<lparr>content_type = ''text'',
                                            content_text = ''Error: Hyperliquid API error: '' @ reason\<rparr>],
                              isError = Some True\<rparr>"
      by (simp add: result)
  next
    assume "error_property body = None"
    then show "fst (call_tool e ''get_l2_snapshot'' a)
              = Completed \<lparr>content = [\<lparr>content_type = ''text'',
                              content_text = ''Error: Hyperliquid API error: ''
                                @ ''Request failed with status code '' @ show_nat st\<rparr>],
                           isError = Some True\<rparr>"
      by (simp add: result)
  qed
qed

theorem get_l2_snapshot_upstream_error_witness:
  "fst (call_tool failing_stub ''get_l2_snapshot'' [''coin'' \<mapsto> JString ''ZZZ''])
     = Completed \<lparr>content = [\<lparr>content_type = ''text'',
                     content_text = ''Error: Hyperliquid API error: coin not found''\<rparr>],
                  isError = Some True\<rparr>
   \<and> fst (call_tool bare_failing_stub ''get_l2_snapshot'' [''coin'' \<mapsto> JString ''ZZZ''])
     = Completed \<lparr>content = [\<lparr>content_type = ''text'',
                     content_text = ''Error: Hyperliquid API error: Request failed with status code 503''\<rparr>],
                  isError = Some True\<rparr>"
proof -
  let ?a = "[''coin'' \<mapsto> JString ''ZZZ'']"
  let ?req = "JObject [(''type'', JString ''l2Book''), (''coin'', JString ''ZZZ'')]"
  have coin: "?a ''coin'' = Some (JString ''ZZZ'')"
    by simp
  have up1: "upstream failing_stub ''/info'' ?req = Reply 500 coin_not_found"
    by (simp add: failing_stub_def)
  have up2: "upstream bare_failing_stub ''/info'' ?req = Reply 503 (JString ''Service Unavailable'')"
    by (simp add: bare_failing_stub_def)
  have st1: "\<not> (200 \<le> (500::nat) \<and> (500::nat) < 300)" and st2: "\<not> (200 \<le> (503::nat) \<and> (503::nat) < 300)"
    by simp_all
  have e1: "error_property coin_not_found = Some (JString ''coin not found'')"
    by (simp add: coin_not_found_def)
  have e2: "error_property (JString ''Service Unavailable'') = None"
    by simp
  have "fst (call_tool failing_stub ''get_l2_snapshot'' ?a)
     = Completed \<lparr>content = [\<lparr>content_type = ''text'',
                     content_text = ''Error: Hyperliquid API error: '' @ ''coin not found''\<rparr>],
                  isError = Some True\<rparr>"
    using get_l2_snapshot_upstream_error [of ?a "''ZZZ''" failing_stub 500 coin_not_found, OF coin up1 st1] e1
    by simp
  moreover have "fst (call_tool bare_failing_stub ''get_l2_snapshot'' ?a)
     = Completed \<lparr>content = [\<lparr>content_type = ''text'',
                     content_text = ''Error: Hyperliquid API error: ''
                       @ ''Request failed with status code '' @ show_nat 503\<rparr>],
                  isError = Some True\<rparr>"
    using get_l2_snapshot_upstream_error
      [of ?a "''ZZZ''" bare_failing_stub 503 "JString ''Service Unavailable''", OF coin up2 st2] e2
    by simp
  moreover have "show_nat 503 = ''503''"
    by (simp add: show_nat.simps digit_char_def)
  ultimately show ?thesis
    by simp
qed

section \<open>The two outcomes of a call\<close>

text \<open>
  C10.  A call of a registered tool whose arguments the schema accepts never ends in an
  exception.  It sends one request to \<^verbatim>\<open>/info\<close>.  When the request fails (axios rejects it,
  or anything else is thrown) the result is flagged \<open>isError\<close> and its one text begins
  with \<^verbatim>\<open>Error: \<close>; when it succeeds the result is the serialized body of the response and
  has no \<open>isError\<close>.
\<close>

theorem call_tool_two_outcomes:
  assumes "call_tool e name a = (out, sent)"
    and "out \<noteq> UnknownTool"
    and "\<forall>issues. out \<noteq> InvalidParams issues"
  shows "(\<forall>err. out \<noteq> Raised err)
       \<and> (\<exists>d. sent = [(''/info'', d)]
            \<and> (case hyperliquidApi_post e ''/info'' d of
                  Inr response \<Rightarrow>
                    out = Completed \<lparr>content = [\<lparr>content_type = ''text'',
                             content_text = JSON_stringify (number_to_string e) (data response)\<rparr>],
                           isError = None\<rparr>
                | Inl err \<Rightarrow>
                    (\<exists>msg. out = Completed \<lparr>content = [\<lparr>content_type = ''text'',
                                     content_text = ''Error: '' @ msg\<rparr>],
                                   isError = Some True\<rparr>)))"
proof -
  from call_tool_cases [of e name a] assms
  obtain d where
    out: "out = Completed (case hyperliquidApi_post e ''/info'' d of
                      Inr response \<Rightarrow> success_result (number_to_string e) (data response)
                    | Inl err \<Rightarrow> error_result (rethrow (number_to_string e) err))"
    and sent: "sent = [(''/info'', d)]"
    by auto
  have "case hyperliquidApi_post e ''/info'' d of
                  Inr response \<Rightarrow>
                    out = Completed \<lparr>content = [\<lparr>content_type = ''text'',
                             content_text = JSON_stringify (number_to_string e) (data response)\<rparr>],
                           isError = None\<rparr>
                | Inl err \<Rightarrow>
                    (\<exists>msg. out = Completed \<lparr>content = [\<lparr>content_type = ''text'',
                                     content_text = ''Error: '' @ msg\<rparr>],
                                   isError = Some True\<rparr>)"
  proof (cases "hyperliquidApi_post e ''/info'' d")
    case (Inl err)
    then show ?thesis
      by (simp add: out error_result_def)
  next
    case (Inr response)
    then show ?thesis
      by (simp add: out success_result_def)
  qed
  with sent out show ?thesis
    by blast
qed

theorem call_tool_two_outcomes_witness:
  "call_tool echo_stub ''get_all_mids'' Map.empty
     = (Completed \<lparr>content = [\<lparr>content_type = ''text'',
                      content_text = JSON_stringify integral_to_string
                                       (JObject [(''type'', JString ''allMids'')])\<rparr>],
                   isError = None\<rparr>,
        [(''/info'', JObject [(''type'', JString ''allMids'')])])
   \<and> call_tool failing_stub ''get_meta'' Map.empty
     = (Completed \<lparr>content = [\<lparr>content_type = ''text'',
                      content_text = ''Error: Hyperliquid API error: coin not found''\<rparr>],
                   isError = Some True\<rparr>,
        [(''/info'', JObject [(''type'', JString ''meta'')])])"
proof -
  have ok: "call_tool echo_stub ''get_all_mids'' Map.empty
     = (Completed \<lparr>content = [\<lparr>content_type = ''text'',
                      content_text = JSON_stringify integral_to_string
                                       (JObject [(''type'', JString ''allMids'')])\<rparr>],
                   isError = None\<rparr>,
        [(''/info'', JObject [(''type'', JString ''allMids'')])])"
    by (simp add: call_tool_def server_tool_def z_none_def get_all_mids_def handler_body_eq
        hyperliquidApi_post_def echo_stub_def success_result_def)
  have failed: "call_tool failing_stub ''get_meta'' Map.empty
     = (Completed \<lparr>content = [\<lparr>content_type = ''text'',
                      content_text = ''Error: Hyperliquid API error: coin not found''\<rparr>],
                   isError = Some True\<rparr>,
        [(''/info'', JObject [(''type'', JString ''meta'')])])"
    by (simp add: call_tool_def server_tool_def z_none_def get_meta_def handler_body_eq
        hyperliquidApi_post_def failing_stub_def error_result_def response_data_error_def
        js_or_def coin_not_found_def)
  show ?thesis
    using call_tool_two_outcomes [OF ok] call_tool_two_outcomes [OF failed] ok failed
    by simp
qed

text \<open>
  C2.  \<open>makeHyperliquidRequest\<close> returns the body of every response that axios resolves
  and never looks into it.  So whenever the one request of a call is answered with a 2xx
  status, the result is the serialized body and is not flagged, whatever the body holds,
  an \<^verbatim>\<open>error\<close> property included.
\<close>

theorem success_status_returns_body:
  assumes "call_tool e name a = (out, [(endpoint, body)])"
    and "upstream e endpoint body = Reply st d"
    and "200 \<le> st \<and> st < 300"
  shows "out = Completed \<lparr>content = [\<lparr>content_type = ''text'',
                            content_text = JSON_stringify (number_to_string e) d\<rparr>],
                         isError = None\<rparr>"
proof -
  from call_tool_cases [of e name a] assms(1)
  have out: "out = Completed (case hyperliquidApi_post e ''/info'' body of
                      Inr response \<Rightarrow> success_result (number_to_string e) (data response)
                    | Inl err \<Rightarrow> error_result (rethrow (number_to_string e) err))"
    and endpoint: "endpoint = ''/info''"
    by auto
  have "hyperliquidApi_post e ''/info'' body = Inr \<lparr>status = st, data = d\<rparr>"
    using assms(2,3) by (simp add: endpoint post_ok)
  then show ?thesis
    by (simp add: out success_result_def)
qed

theorem success_status_returns_body_witness:
  "call_tool ok_error_stub ''get_l2_snapshot'' [''coin'' \<mapsto> JString ''ZZZ'']
     = (Completed \<lparr>content = [\<lparr>content_type = ''text'',
                      content_text = JSON_stringify integral_to_string coin_not_found\<rparr>],
                   isError = None\<rparr>,
        [(''/info'', JObject [(''type'', JString ''l2Book''), (''coin'', JString ''ZZZ'')])])
   \<and> error_property coin_not_found = Some (JString ''coin not found'')"
proof -
  let ?req = "JObject [(''type'', JString ''l2Book''), (''coin'', JString ''ZZZ'')]"
  obtain out where
    call: "call_tool ok_error_stub ''get_l2_snapshot'' [''coin'' \<mapsto> JString ''ZZZ'']
             = (out, [(''/info'', ?req)])"
    by (simp add: call_tool_def server_tool_def get_l2_snapshot_shape_def z_field_def
        get_l2_snapshot_def handler_body_eq)
  have up: "upstream ok_error_stub ''/info'' ?req = Reply 200 coin_not_found"
    by (simp add: ok_error_stub_def)
  have st: "200 \<le> (200::nat) \<and> (200::nat) < 300"
    by simp
  have "out = Completed \<lparr>content = [\<lparr>content_type = ''text'',
                   content_text = JSON_stringify (number_to_string ok_error_stub) coin_not_found\<rparr>],
                isError = None\<rparr>"
    using success_status_returns_body [OF call up st] .
  moreover have "number_to_string ok_error_stub = integral_to_string"
    by (simp add: ok_error_stub_def)
  ultimately show ?thesis
    using call by (simp add: coin_not_found_def)
qed

text \<open>
  An answer \<^verbatim>\<open>200 {"error": "coin not found"}\<close> to \<^verbatim>\<open>get_l2_snapshot\<close> comes back as a result
  without \<open>isError\<close> whose text is that body, serialized.
\<close>

theorem embedded_error_payload_counterexample:
  "error_property coin_not_found = Some (JString ''coin not found'')
   \<and> upstream ok_error_stub ''/info'' (JObject [(''type'', JString ''l2Book''), (''coin'', JString ''ZZZ'')])
       = Reply 200 coin_not_found
   \<and> call_tool ok_error_stub ''get_l2_snapshot'' [''coin'' \<mapsto> JString ''ZZZ'']
       = (Completed \<lparr>content = [\<lparr>content_type = ''text'',
                        content_text = ''{'' @ [CHR 0x0A] @ ''  '' @ [CHR 0x22] @ ''error'' @ [CHR 0x22]
                          @ '': '' @ [CHR 0x22] @ ''coin not found'' @ [CHR 0x22] @ [CHR 0x0A] @ ''}''\<rparr>],
                     isError = None\<rparr>,
          [(''/info'', JObject [(''type'', JString ''l2Book''), (''coin'', JString ''ZZZ'')])])"
  by (simp add: call_tool_def server_tool_def get_l2_snapshot_shape_def z_field_def
      get_l2_snapshot_def handler_body_eq hyperliquidApi_post_def ok_error_stub_def
      success_result_def coin_not_found_def JSON_stringify_def quote_def escape_char_def)

end
